theory Spec2Isabelle
  imports Main
begin

section \<open>Python values, errors and events\<close>

text \<open>
  A Python \<open>float\<close> is an IEEE double: \<open>Dbl m e\<close> stands for the finite value
  \<open>m * 2 ^ e\<close> (a double has \<open>\<bar>m\<bar> < 2 ^ 53\<close> and \<open>- 1074 \<le> e \<le> 971\<close>), next to
  the two infinities and NaN.
\<close>

datatype pyfloat = Dbl int int | PosInf | NegInf | NaN

text \<open>
  The values the script handles. A \<open>dict\<close> with string keys is an association list in
  insertion order (keys are unique, as in Python). A naive \<open>datetime\<close> is the number of
  microseconds since 0001-01-01 00:00:00, a \<open>timedelta\<close> a number of microseconds; both
  types have microsecond resolution. \<open>bool\<close> is a subclass of \<open>int\<close> in Python, which
  \<open>isinstance\<close> respects.
\<close>

datatype pyval =
    PyNone
  | PyBool bool
  | PyInt int
  | PyFloat pyfloat
  | PyStr string
  | PyList "pyval list"
  | PyDict "(string \<times> pyval) list"
  | PyDatetime int
  | PyTimedelta int

text \<open>
  Exceptions are values, named after their Python class. The message is kept where the
  script sets it. \<open>SpotifyException\<close> stands for whatever the API client raises.
\<close>

datatype error =
    ValueError string
  | IndexError string
  | KeyError string
  | FileNotFoundError string
  | TypeError
  | OverflowError
  | JSONDecodeError
  | SpotifyException string

abbreviation UnconvertibleDuration :: error where
  "UnconvertibleDuration \<equiv> ValueError ''cannot convert stop time.''"

abbreviation PastDuration :: error where
  "PastDuration \<equiv> ValueError ''stopping time is before now.''"

abbreviation ConfigMissing :: error where
  "ConfigMissing \<equiv> FileNotFoundError ''creates './config.json' file. please, sets values.''"

text \<open>
  What the script does to the outside world, in order: the calls to the API client, the
  console output, the reads of the clock, the suspensions and the file operations.
\<close>

datatype event =
    SpotifyOAuth string string string string string
  | CurrentlyPlaying
  | PausePlayback
  | Print string
  | ProgressAddTask int
  | ProgressUpdate pyfloat
  | Sleep pyval
  | Now int
  | IsFile string
  | WriteFile string pyval
  | ReadFile string

text \<open>
  The content of a file: the JSON serialisation of a value (what \<open>json.dump\<close> writes
  and \<open>json.load\<close> reads back), or text that is not JSON.
\<close>

datatype file_content = JsonFile pyval | OtherFile

text \<open>
  The environment answers the calls the script makes to its collaborators: the API client
  (\<open>SpotifyOAuth(...)\<close>, the k-th \<open>currently_playing()\<close>, \<open>pause_playback()\<close>), the
  clock (the k-th \<open>datetime.now()\<close>) and \<open>time.sleep\<close>. \<open>None\<close> for a command
  means that it returned normally, \<open>Some err\<close> that it raised \<open>err\<close>.
\<close>

record env =
  authorize :: "string \<Rightarrow> string \<Rightarrow> string \<Rightarrow> string \<Rightarrow> string \<Rightarrow> error option"
  currently_playing :: "nat \<Rightarrow> error + pyval"
  pause_playback :: "error option"
  now_at :: "nat \<Rightarrow> int"
  sleep_result :: "pyval \<Rightarrow> error option"

text \<open>
  The state of a run: how many times the clock and the playback state have been asked,
  the files, and the events so far.
\<close>

record state =
  now_calls :: nat
  playing_calls :: nat
  files :: "string \<rightharpoonup> file_content"
  trace :: "event list"

definition emit :: "event \<Rightarrow> state \<Rightarrow> state" where
  "emit ev s = s\<lparr>trace := trace s @ [ev]\<rparr>"

definition now :: "env \<Rightarrow> state \<Rightarrow> int \<times> state" where
  "now e s =
     (let t = now_at e (now_calls s)
      in (t, emit (Now t) (s\<lparr>now_calls := Suc (now_calls s)\<rparr>)))"

section \<open>The standard library: truthiness, subscripting, \<open>timedelta\<close>\<close>

fun truthy :: "pyval \<Rightarrow> bool" where
  "truthy PyNone = False"
| "truthy (PyBool b) = b"
| "truthy (PyInt n) = (n \<noteq> 0)"
| "truthy (PyFloat (Dbl m e)) = (m \<noteq> 0)"
| "truthy (PyFloat f) = True"
| "truthy (PyStr s) = (s \<noteq> [])"
| "truthy (PyList xs) = (xs \<noteq> [])"
| "truthy (PyDict kvs) = (kvs \<noteq> [])"
| "truthy (PyDatetime t) = True"
| "truthy (PyTimedelta d) = (d \<noteq> 0)"

text \<open>\<open>obj[key]\<close> with a string key: only a dict supports it, and a dict raises
  \<open>KeyError\<close> for a key it does not hold.\<close>

fun getitem :: "pyval \<Rightarrow> string \<Rightarrow> error + pyval" where
  "getitem (PyDict kvs) k =
     (case map_of kvs k of None \<Rightarrow> Inl (KeyError k) | Some v \<Rightarrow> Inr v)"
| "getitem v k = Inl TypeError"

fun bitlen :: "nat \<Rightarrow> nat" where
  "bitlen n = (if n = 0 then 0 else Suc (bitlen (n div 2)))"

text \<open>\<open>round_half_even_div a p\<close> is \<open>a / p\<close> rounded to the nearest integer, a tie going
  to the even neighbour (\<open>0 < p\<close>): Python's \<open>round\<close> and the IEEE rounding mode.\<close>

definition round_half_even_div :: "int \<Rightarrow> int \<Rightarrow> int" where
  "round_half_even_div a p =
     (let q = a div p; r = a mod p
      in if 2 * r < p then q
         else if p < 2 * r then q + 1
         else if even q then q else q + 1)"

text \<open>The double nearest to \<open>M * 2 ^ e\<close>: the significand is cut to 53 bits. (No
  overflow or underflow arises for the magnitudes this is used at.)\<close>

definition to_double :: "int \<Rightarrow> int \<Rightarrow> int \<times> int" where
  "to_double M e =
     (let b = bitlen (nat \<bar>M\<bar>)
      in if b \<le> 53 then (M, e)
         else (round_half_even_div M (2 ^ (b - 53)), e + int (b - 53)))"

text \<open>\<open>round(x)\<close> of the double \<open>M * 2 ^ e\<close>, an \<open>int\<close>.\<close>

definition py_round :: "int \<times> int \<Rightarrow> int" where
  "py_round x =
     (case x of (M, e) \<Rightarrow>
        if 0 \<le> e then M * 2 ^ nat e else round_half_even_div M (2 ^ nat (- e)))"

text \<open>\<open>int(x)\<close> of the double \<open>M * 2 ^ e\<close>: towards zero.\<close>

definition py_trunc :: "int \<times> int \<Rightarrow> int" where
  "py_trunc x =
     (case x of (M, e) \<Rightarrow>
        if 0 \<le> e then M * 2 ^ nat e else sgn M * (\<bar>M\<bar> div 2 ^ nat (- e)))"

text \<open>
  \<open>timedelta(seconds=x)\<close> for a float \<open>x = m * 2 ^ e\<close>, in microseconds: \<open>modf\<close> splits
  \<open>x\<close> into its whole seconds (towards zero) and the fraction; the fraction times
  \<open>1e6\<close> is a double product, rounded to whole microseconds.
\<close>

definition float_seconds_to_us :: "int \<Rightarrow> int \<Rightarrow> int" where
  "float_seconds_to_us m e =
     (if 0 \<le> e then py_trunc (m, e) * 1000000
      else let whole = py_trunc (m, e);
               frac = m - whole * 2 ^ nat (- e)
           in whole * 1000000 + py_round (to_double (frac * 1000000) e))"

text \<open>A \<open>timedelta\<close> holds between -999999999 and 999999999 days.\<close>

definition timedelta_of_us :: "int \<Rightarrow> error + int" where
  "timedelta_of_us us =
     (if 999999999 < \<bar>us div 86400000000\<bar> then Inl OverflowError else Inr us)"

fun timedelta_seconds :: "pyval \<Rightarrow> error + int" where
  "timedelta_seconds (PyBool b) = timedelta_of_us (if b then 1000000 else 0)"
| "timedelta_seconds (PyInt n) = timedelta_of_us (n * 1000000)"
| "timedelta_seconds (PyFloat (Dbl m e)) = timedelta_of_us (float_seconds_to_us m e)"
| "timedelta_seconds (PyFloat NaN) = Inl (ValueError ''cannot convert float NaN to integer'')"
| "timedelta_seconds (PyFloat f) = Inl OverflowError"
| "timedelta_seconds v = Inl TypeError"

text \<open>\<open>t / timedelta(microseconds=1)\<close>: true division, a float.\<close>

definition timedelta_div_us :: "int \<Rightarrow> pyfloat" where
  "timedelta_div_us us = (case to_double us 0 of (M, e) \<Rightarrow> Dbl M e)"

text \<open>A \<open>datetime\<close> lies between 0001-01-01 and the end of 9999-12-31 (3652059 days).\<close>

definition datetime_add :: "int \<Rightarrow> int \<Rightarrow> error + int" where
  "datetime_add t d =
     (if 0 \<le> t + d \<and> t + d < 3652059 * 86400000000 then Inr (t + d) else Inl OverflowError)"

definition two_digits :: "nat \<Rightarrow> string" where
  "two_digits n = [''0123456789'' ! (n div 10), ''0123456789'' ! (n mod 10)]"

text \<open>\<open>t.strftime("%H:%M:%S")\<close>\<close>

definition strftime_HMS :: "int \<Rightarrow> string" where
  "strftime_HMS t =
     (let sod = nat (t div 1000000 mod 86400)
      in two_digits (sod div 3600) @ '':'' @ two_digits (sod div 60 mod 60) @ '':''
         @ two_digits (sod mod 60))"

fun join_space :: "string list \<Rightarrow> string" where
  "join_space [] = []"
| "join_space [x] = x"
| "join_space (x # y # ys) = x @ '' '' @ join_space (y # ys)"

fun str_items :: "pyval list \<Rightarrow> string list option" where
  "str_items [] = Some []"
| "str_items (PyStr x # vs) = map_option (\<lambda>xs. x # xs) (str_items vs)"
| "str_items (v # vs) = None"

text \<open>\<open>" ".join(scope)\<close>: a list is joined when all its items are strings, a dict by
  its keys, a string character by character (ASCII); anything else is not iterable.\<close>

fun join_scope :: "pyval \<Rightarrow> error + string" where
  "join_scope (PyList vs) =
     (case str_items vs of None \<Rightarrow> Inl TypeError | Some xs \<Rightarrow> Inr (join_space xs))"
| "join_scope (PyDict kvs) = Inr (join_space (map fst kvs))"
| "join_scope (PyStr x) = Inr (join_space (map (\<lambda>c. [c]) x))"
| "join_scope v = Inl TypeError"

section \<open>The script\<close>

subsection \<open>\<open>is_playing\<close> (lines 16 to 27)\<close>

definition is_playing :: "env \<Rightarrow> state \<Rightarrow> (error + pyval) \<times> state" where
  "is_playing e s =
     (let s1 = emit CurrentlyPlaying (s\<lparr>playing_calls := Suc (playing_calls s)\<rparr>)
      in case currently_playing e (playing_calls s) of
           Inl err \<Rightarrow> (Inl err, s1)
         | Inr current_playing_track \<Rightarrow>
             if current_playing_track = PyNone then (Inr (PyBool False), s1)
             else (getitem current_playing_track ''is_playing'', s1))"

subsection \<open>\<open>total_microseconds\<close> (lines 30 to 36)\<close>

definition total_microseconds :: "int \<Rightarrow> int" where
  "total_microseconds time = py_trunc (to_double time 0)"

subsection \<open>\<open>sleep_timer\<close> (lines 39 to 113)\<close>

text \<open>\<open>isinstance(v, (int, float))\<close>: true of a \<open>bool\<close> as well, \<open>bool\<close> being a
  subclass of \<open>int\<close>.\<close>

fun isinstance_int_float :: "pyval \<Rightarrow> bool" where
  "isinstance_int_float (PyBool b) = True"
| "isinstance_int_float (PyInt n) = True"
| "isinstance_int_float (PyFloat f) = True"
| "isinstance_int_float v = False"

fun isinstance_datetime :: "pyval \<Rightarrow> bool" where
  "isinstance_datetime (PyDatetime t) = True"
| "isinstance_datetime v = False"

fun isinstance_timedelta :: "pyval \<Rightarrow> bool" where
  "isinstance_timedelta (PyTimedelta d) = True"
| "isinstance_timedelta v = False"

text \<open>
  Lines 75 to 85, which the specification calls \<open>to_duration\<close>: the stop time as a
  \<open>timedelta\<close>, by the type of \<open>music_stop_time\<close>, then the check of its sign. The
  \<open>datetime\<close> branch reads the clock. (The two inner defaults are never reached: they only
  complete the case distinctions.)
\<close>

definition to_timedelta :: "env \<Rightarrow> pyval \<Rightarrow> state \<Rightarrow> (error + int) \<times> state" where
  "to_timedelta e music_stop_time s =
     (if isinstance_int_float music_stop_time then (timedelta_seconds music_stop_time, s)
      else if isinstance_datetime music_stop_time then
        (case music_stop_time of
           PyDatetime t \<Rightarrow> (case now e s of (n, s1) \<Rightarrow> (Inr (t - n), s1))
         | _ \<Rightarrow> (Inl TypeError, s))
      else if isinstance_timedelta music_stop_time then
        (case music_stop_time of
           PyTimedelta d \<Rightarrow> (Inr d, s)
         | _ \<Rightarrow> (Inl TypeError, s))
      else (Inl UnconvertibleDuration, s))"

definition to_duration :: "env \<Rightarrow> pyval \<Rightarrow> state \<Rightarrow> (error + int) \<times> state" where
  "to_duration e music_stop_time s =
     (case to_timedelta e music_stop_time s of
        (Inl err, s1) \<Rightarrow> (Inl err, s1)
      | (Inr stop_time, s1) \<Rightarrow>
          if stop_time < 0 then (Inl PastDuration, s1) else (Inr stop_time, s1))"

text \<open>
  Lines 102 to 109, the wait loop. It ends when the clock says so; if the clock never
  gets there the loop does not return, which is the value \<open>None\<close>.
\<close>

partial_function (option) wait_loop ::
  "env \<Rightarrow> pyval \<Rightarrow> int \<Rightarrow> int \<Rightarrow> state \<Rightarrow> ((error + unit) \<times> state) option" where
  "wait_loop e elapced_time_check_interval start_time stop_time s =
     (case now e s of (t, s1) \<Rightarrow>
        let elapsed_time = t - start_time;
            s2 = emit (ProgressUpdate (timedelta_div_us elapsed_time)) s1
        in if stop_time < elapsed_time then Some (Inr (), s2)
           else let s3 = emit (Sleep elapced_time_check_interval) s2
                in case sleep_result e elapced_time_check_interval of
                     Some err \<Rightarrow> Some (Inl err, s3)
                   | None \<Rightarrow> wait_loop e elapced_time_check_interval start_time stop_time s3)"

declare wait_loop.simps [code]

text \<open>Lines 111 to 113.\<close>

definition pause_if_playing :: "env \<Rightarrow> state \<Rightarrow> (error + unit) \<times> state" where
  "pause_if_playing e s =
     (case is_playing e s of
        (Inl err, s1) \<Rightarrow> (Inl err, s1)
      | (Inr playing, s1) \<Rightarrow>
          if truthy playing then
            (let s2 = emit PausePlayback s1
             in case pause_playback e of
                  Some err \<Rightarrow> (Inl err, s2)
                | None \<Rightarrow> (Inr (), emit (Print ''stop playing'') s2))
          else (Inr (), s1))"

text \<open>Lines 87 to 113: what follows once the stop time is known.\<close>

definition countdown ::
  "env \<Rightarrow> pyval \<Rightarrow> int \<Rightarrow> state \<Rightarrow> ((error + unit) \<times> state) option" where
  "countdown e elapced_time_check_interval stop_time s =
     (let s1 = emit (Print ''start sleep timer'') s
      in case now e s1 of (start_time, s2) \<Rightarrow>
         case now e s2 of (t, s3) \<Rightarrow>
         case datetime_add t stop_time of
           Inl err \<Rightarrow> Some (Inl err, s3)
         | Inr end_time \<Rightarrow>
             let s4 = emit (Print (''start '' @ strftime_HMS start_time @ '' -> ''
                                   @ strftime_HMS end_time @ '' end.'')) s3;
                 s5 = emit (ProgressAddTask (total_microseconds stop_time)) s4
             in case wait_loop e elapced_time_check_interval start_time stop_time s5 of
                  None \<Rightarrow> None
                | Some (Inl err, s6) \<Rightarrow> Some (Inl err, s6)
                | Some (Inr u, s6) \<Rightarrow> Some (pause_if_playing e s6))"

definition sleep_timer ::
  "env \<Rightarrow> string \<Rightarrow> string \<Rightarrow> string \<Rightarrow> pyval \<Rightarrow> string \<Rightarrow> pyval \<Rightarrow> pyval \<Rightarrow> state
   \<Rightarrow> ((error + unit) \<times> state) option" where
  "sleep_timer e username client_id client_secret scope redirect_uri music_stop_time
     elapced_time_check_interval s =
     (case join_scope scope of
        Inl err \<Rightarrow> Some (Inl err, s)
      | Inr joined \<Rightarrow>
          let s1 = emit (SpotifyOAuth client_id client_secret redirect_uri joined username) s
          in case authorize e client_id client_secret redirect_uri joined username of
               Some err \<Rightarrow> Some (Inl err, s1)
             | None \<Rightarrow>
                 (case is_playing e s1 of
                    (Inl err, s2) \<Rightarrow> Some (Inl err, s2)
                  | (Inr playing, s2) \<Rightarrow>
                      if \<not> truthy playing then
                        Some (Inr (), emit (Print ''does not play songs.'') s2)
                      else
                        (case to_duration e music_stop_time s2 of
                           (Inl err, s3) \<Rightarrow> Some (Inl err, s3)
                         | (Inr stop_time, s3) \<Rightarrow>
                             countdown e elapced_time_check_interval stop_time s3)))"

subsection \<open>\<open>get_config\<close> (lines 116 to 146)\<close>

definition default_config :: pyval where
  "default_config =
     PyDict [(''username'', PyStr ''''),
             (''client_id'', PyStr ''''),
             (''client_secret'', PyStr ''''),
             (''scope'', PyList [PyStr ''user-modify-playback-state'',
                                 PyStr ''user-read-currently-playing'']),
             (''redirect_uri'', PyStr ''http://localhost:8080'')]"

definition get_config :: "state \<Rightarrow> (error + pyval) \<times> state" where
  "get_config s =
     (let s1 = emit (IsFile ''./config.json'') s
      in case files s1 ''./config.json'' of
           None \<Rightarrow>
             (let s2 = emit (WriteFile ''./config.json'' default_config)
                         (s1\<lparr>files := (files s1)(''./config.json'' \<mapsto> JsonFile default_config)\<rparr>)
              in (Inl ConfigMissing, s2))
         | Some content \<Rightarrow>
             (let s2 = emit (ReadFile ''./config.json'') s1
              in case content of
                   OtherFile \<Rightarrow> (Inl JSONDecodeError, s2)
                 | JsonFile config \<Rightarrow> (Inr config, s2)))"

subsection \<open>The entry point (lines 149 to 169)\<close>

definition str_or_empty :: "pyval \<Rightarrow> string" where
  "str_or_empty val = (case val of PyStr x \<Rightarrow> x | _ \<Rightarrow> '''')"

definition iterable_or_empty :: "pyval \<Rightarrow> pyval" where
  "iterable_or_empty val =
     (case val of PyStr x \<Rightarrow> val | PyList vs \<Rightarrow> val | PyDict kvs \<Rightarrow> val | _ \<Rightarrow> PyStr '''')"

text \<open>
  \<open>float(sys.argv[1])\<close> is a parameter: \<open>py_float x\<close> is \<open>None\<close> when \<open>float\<close>
  raises \<open>ValueError\<close> on the string \<open>x\<close>. Once \<open>float\<close> has returned, \<open>stop_time\<close>
  is not \<open>None\<close>, so line 158 is never reached. The interval keeps its default \<open>1.0\<close>.
\<close>

definition main ::
  "(string \<Rightarrow> pyfloat option) \<Rightarrow> env \<Rightarrow> string list \<Rightarrow> state
   \<Rightarrow> ((error + unit) \<times> state) option" where
  "main py_float e argv s =
     (if length argv \<le> 1 then Some (Inl (IndexError ''please input stop time''), s)
      else case py_float (argv ! 1) of
        None \<Rightarrow> Some (Inl (ValueError (''cannot convert input. input='' @ argv ! 1)), s)
      | Some stop_time \<Rightarrow>
          (case get_config s of
             (Inl err, s1) \<Rightarrow> Some (Inl err, s1)
           | (Inr config, s1) \<Rightarrow>
          (case getitem config ''username'' of Inl err \<Rightarrow> Some (Inl err, s1) | Inr username \<Rightarrow>
          (case getitem config ''client_id'' of Inl err \<Rightarrow> Some (Inl err, s1) | Inr client_id \<Rightarrow>
          (case getitem config ''client_secret'' of Inl err \<Rightarrow> Some (Inl err, s1) | Inr client_secret \<Rightarrow>
          (case getitem config ''scope'' of Inl err \<Rightarrow> Some (Inl err, s1) | Inr scope \<Rightarrow>
          (case getitem config ''redirect_uri'' of Inl err \<Rightarrow> Some (Inl err, s1) | Inr redirect_uri \<Rightarrow>
             sleep_timer e (str_or_empty username) (str_or_empty client_id)
               (str_or_empty client_secret) (iterable_or_empty scope)
               (str_or_empty redirect_uri) (PyFloat stop_time) (PyFloat (Dbl 1 0)) s1)))))))"

section \<open>Notions used to state the properties\<close>

text \<open>\<open>exact_seconds v d\<close>: the span of \<open>d\<close> microseconds is exactly \<open>v\<close> seconds, for a
  number \<open>v\<close>.\<close>

fun exact_seconds :: "pyval \<Rightarrow> int \<Rightarrow> bool" where
  "exact_seconds (PyBool b) d = (d = (if b then 1000000 else 0))"
| "exact_seconds (PyInt n) d = (d = n * 1000000)"
| "exact_seconds (PyFloat (Dbl m e)) d =
     (if 0 \<le> e then d = m * 2 ^ nat e * 1000000 else d * 2 ^ nat (- e) = m * 1000000)"
| "exact_seconds v d = False"

text \<open>\<open>near_seconds v d\<close>: the span of \<open>d\<close> microseconds is \<open>v\<close> seconds up to the
  resolution of \<open>timedelta\<close>: equal to it for an \<open>int\<close>, less than one microsecond
  from it for a \<open>float\<close>.\<close>

fun near_seconds :: "pyval \<Rightarrow> int \<Rightarrow> bool" where
  "near_seconds (PyBool b) d = (d = (if b then 1000000 else 0))"
| "near_seconds (PyInt n) d = (d = n * 1000000)"
| "near_seconds (PyFloat (Dbl m e)) d =
     (if 0 \<le> e then d = m * 2 ^ nat e * 1000000
      else \<bar>d * 2 ^ nat (- e) - m * 1000000\<bar> < 2 ^ nat (- e))"
| "near_seconds v d = False"

text \<open>The answer of \<open>currently_playing()\<close> is a record that reports playback as active.\<close>

fun reports_playing :: "error + pyval \<Rightarrow> bool" where
  "reports_playing (Inr (PyDict kvs)) =
     (case map_of kvs ''is_playing'' of None \<Rightarrow> False | Some v \<Rightarrow> truthy v)"
| "reports_playing r = False"

text \<open>The answer of \<open>currently_playing()\<close> says that nothing plays: no active item, or a
  record that reports playback as not active.\<close>

fun reports_stopped :: "error + pyval \<Rightarrow> bool" where
  "reports_stopped (Inr PyNone) = True"
| "reports_stopped (Inr (PyDict kvs)) =
     (case map_of kvs ''is_playing'' of None \<Rightarrow> False | Some v \<Rightarrow> \<not> truthy v)"
| "reports_stopped r = False"

text \<open>The calls to the API client among the events.\<close>

fun is_api_call :: "event \<Rightarrow> bool" where
  "is_api_call (SpotifyOAuth a b c d u) = True"
| "is_api_call CurrentlyPlaying = True"
| "is_api_call PausePlayback = True"
| "is_api_call ev = False"

text \<open>
  The events of a wait loop that starts at the \<open>c\<close>-th reading of the clock, suspends
  \<open>n\<close> times and leaves at its reading number \<open>n\<close>.
\<close>

fun loop_events :: "env \<Rightarrow> pyval \<Rightarrow> int \<Rightarrow> nat \<Rightarrow> nat \<Rightarrow> event list" where
  "loop_events e interval start_time c 0 =
     [Now (now_at e c), ProgressUpdate (timedelta_div_us (now_at e c - start_time))]"
| "loop_events e interval start_time c (Suc n) =
     [Now (now_at e c), ProgressUpdate (timedelta_div_us (now_at e c - start_time)),
      Sleep interval] @ loop_events e interval start_time (Suc c) n"

text \<open>
  The events of lines 87 to 109 when the clock has been read \<open>c\<close> times before and the
  loop suspends \<open>n\<close> times.
\<close>

definition timer_events :: "env \<Rightarrow> pyval \<Rightarrow> int \<Rightarrow> nat \<Rightarrow> nat \<Rightarrow> event list" where
  "timer_events e interval stop_time c n =
     [Print ''start sleep timer'', Now (now_at e c), Now (now_at e (Suc c)),
      Print (''start '' @ strftime_HMS (now_at e c) @ '' -> ''
             @ strftime_HMS (now_at e (Suc c) + stop_time) @ '' end.''),
      ProgressAddTask (total_microseconds stop_time)]
     @ loop_events e interval (now_at e c) (c + 2) n"

text \<open>The state in which line 75 is reached: after \<open>SpotifyOAuth(...)\<close> and the first
  query of the playback state.\<close>

definition entered :: "event \<Rightarrow> state \<Rightarrow> state" where
  "entered oauth s = emit CurrentlyPlaying ((emit oauth s)\<lparr>playing_calls := Suc (playing_calls s)\<rparr>)"

subsection \<open>Concrete runs\<close>

text \<open>
  An environment in which every call succeeds, playback is reported as active and each
  reading of the clock is one second after the one before, from 1997-05-24 16:00:00 on;
  and variants in which nothing plays, or playback stops after the first query.
\<close>

definition demo_env :: env where
  "demo_env =
     \<lparr>authorize = (\<lambda>client_id client_secret redirect_uri scope username. None),
      currently_playing = (\<lambda>k. Inr (PyDict [(''is_playing'', PyBool True)])),
      pause_playback = None,
      now_at = (\<lambda>k. 63000000000000000 + 1000000 * int k),
      sleep_result = (\<lambda>v. None)\<rparr>"

definition demo_env_idle :: env where
  "demo_env_idle = demo_env\<lparr>currently_playing := (\<lambda>k. Inr PyNone)\<rparr>"

definition demo_env_stops :: env where
  "demo_env_stops =
     demo_env\<lparr>currently_playing :=
       (\<lambda>k. if k = 0 then Inr (PyDict [(''is_playing'', PyBool True)])
            else Inr (PyDict [(''is_playing'', PyBool False)]))\<rparr>"

definition demo_env_no_key :: env where
  "demo_env_no_key = demo_env\<lparr>currently_playing := (\<lambda>k. Inr (PyDict [(''item'', PyNone)]))\<rparr>"

definition demo_state :: state where
  "demo_state = \<lparr>now_calls = 0, playing_calls = 0, files = Map.empty, trace = []\<rparr>"

definition demo_scope :: pyval where
  "demo_scope = PyList [PyStr ''user-modify-playback-state'', PyStr ''user-read-currently-playing'']"

section \<open>Properties\<close>

subsection \<open>Auxiliary facts\<close>

text \<open>What \<open>is_playing\<close> returns when the API reports playback as active, and when
  it reports that nothing plays.\<close>

lemma is_playing_when_playing:
  assumes "reports_playing (currently_playing e (playing_calls s))"
  shows "\<exists>p. truthy p \<and> is_playing e s
           = (Inr p, emit CurrentlyPlaying (s\<lparr>playing_calls := Suc (playing_calls s)\<rparr>))"
proof (cases "currently_playing e (playing_calls s)")
  case (Inl err)
  with assms show ?thesis by simp
next
  case (Inr r)
  with assms obtain kvs where r: "r = PyDict kvs"
    by (cases r) simp_all
  with assms Inr obtain v where "map_of kvs ''is_playing'' = Some v" "truthy v"
    by (auto split: option.splits)
  with Inr r show ?thesis
    by (simp add: is_playing_def Let_def)
qed

lemma is_playing_when_stopped:
  assumes "reports_stopped (currently_playing e (playing_calls s))"
  shows "\<exists>p. \<not> truthy p \<and> is_playing e s
           = (Inr p, emit CurrentlyPlaying (s\<lparr>playing_calls := Suc (playing_calls s)\<rparr>))"
proof (cases "currently_playing e (playing_calls s)")
  case (Inl err)
  with assms show ?thesis by simp
next
  case (Inr r)
  show ?thesis
  proof (cases "r = PyNone")
    case True
    with Inr show ?thesis by (simp add: is_playing_def Let_def)
  next
    case False
    with assms Inr obtain kvs where r: "r = PyDict kvs"
      by (cases r) simp_all
    with assms Inr obtain v where "map_of kvs ''is_playing'' = Some v" "\<not> truthy v"
      by (auto split: option.splits)
    with Inr r show ?thesis
      by (simp add: is_playing_def Let_def)
  qed
qed

text \<open>The wait loop returns at the first reading of the clock at which the elapsed time
  exceeds the stop time, having suspended once for each reading before it.\<close>

lemma wait_loop_leaves:
  assumes "sleep_result e interval = None"
    and "\<forall>j<n. now_at e (now_calls s + j) - start_time \<le> stop_time"
    and "stop_time < now_at e (now_calls s + n) - start_time"
  shows "wait_loop e interval start_time stop_time s
         = Some (Inr (), s\<lparr>now_calls := now_calls s + Suc n,
                           trace := trace s @ loop_events e interval start_time (now_calls s) n\<rparr>)"
  using assms(2,3)
proof (induction n arbitrary: s)
  case 0
  then show ?case
    by (subst wait_loop.simps) (simp add: now_def emit_def Let_def)
next
  case (Suc n)
  let ?t = "now_at e (now_calls s)"
  let ?s3 = "s\<lparr>now_calls := Suc (now_calls s),
               trace := trace s @ [Now ?t, ProgressUpdate (timedelta_div_us (?t - start_time)),
                                   Sleep interval]\<rparr>"
  from Suc.prems(1) have first: "?t - start_time \<le> stop_time"
    by (metis add.right_neutral zero_less_Suc)
  have rest: "\<forall>j<n. now_at e (now_calls ?s3 + j) - start_time \<le> stop_time"
  proof (intro allI impI)
    fix j assume "j < n"
    then have "Suc j < Suc n" by simp
    with Suc.prems(1) have "now_at e (now_calls s + Suc j) - start_time \<le> stop_time" by blast
    then show "now_at e (now_calls ?s3 + j) - start_time \<le> stop_time" by simp
  qed
  have last: "stop_time < now_at e (now_calls ?s3 + n) - start_time"
    using Suc.prems(2) by simp
  have step: "wait_loop e interval start_time stop_time s
              = wait_loop e interval start_time stop_time ?s3"
    using first assms(1)
    by (subst wait_loop.simps) (simp add: now_def emit_def Let_def)
  show ?case
    unfolding step Suc.IH [OF rest last] by simp
qed

lemma loop_events_last:
  "\<exists>pre. loop_events e interval start_time c n
     = pre @ [Now (now_at e (c + n)),
              ProgressUpdate (timedelta_div_us (now_at e (c + n) - start_time))]"
proof (induction n arbitrary: c)
  case 0
  show ?case by simp
next
  case (Suc n)
  from Suc [of "Suc c"] obtain pre where
    "loop_events e interval start_time (Suc c) n
       = pre @ [Now (now_at e (c + Suc n)),
                ProgressUpdate (timedelta_div_us (now_at e (c + Suc n) - start_time))]"
    by auto
  then have "loop_events e interval start_time c (Suc n)
       = ([Now (now_at e c), ProgressUpdate (timedelta_div_us (now_at e c - start_time)),
           Sleep interval] @ pre)
         @ [Now (now_at e (c + Suc n)),
            ProgressUpdate (timedelta_div_us (now_at e (c + Suc n) - start_time))]"
    by simp
  then show ?case by blast
qed

lemma count_loop_events: "count_list (loop_events e interval start_time c n) PausePlayback = 0"
  by (induction n arbitrary: c) simp_all

lemma count_timer_events: "count_list (timer_events e interval stop_time c n) PausePlayback = 0"
  by (simp add: timer_events_def count_loop_events)

lemma first_reading:
  fixes f :: "nat \<Rightarrow> int"
  assumes "d < f k"
  shows "\<exists>n\<le>k. (\<forall>j<n. f j \<le> d) \<and> d < f n"
proof -
  from assms have "\<exists>n. d < f n" by blast
  then obtain n where n: "d < f n" "\<forall>m<n. \<not> d < f m"
    by (auto simp add: exists_least_iff [of "\<lambda>n. d < f n"])
  with assms have "n \<le> k" by (meson not_le)
  with n show ?thesis by (meson not_le)
qed

lemma countdown_runs:
  assumes "sleep_result e interval = None"
    and "datetime_add (now_at e (Suc (now_calls s))) stop_time = Inr end_time"
    and "\<forall>j<n. now_at e (now_calls s + 2 + j) - now_at e (now_calls s) \<le> stop_time"
    and "stop_time < now_at e (now_calls s + 2 + n) - now_at e (now_calls s)"
  shows "countdown e interval stop_time s
         = Some (pause_if_playing e
             (s\<lparr>now_calls := now_calls s + n + 3,
                trace := trace s @ timer_events e interval stop_time (now_calls s) n\<rparr>))"
proof -
  let ?start = "now_at e (now_calls s)"
  let ?s5 = "s\<lparr>now_calls := now_calls s + 2,
      trace := trace s @ [Print ''start sleep timer'', Now ?start, Now (now_at e (Suc (now_calls s))),
        Print (''start '' @ strftime_HMS ?start @ '' -> '' @ strftime_HMS end_time @ '' end.''),
        ProgressAddTask (total_microseconds stop_time)]\<rparr>"
  have e: "end_time = now_at e (Suc (now_calls s)) + stop_time"
    using assms(2) by (simp add: datetime_add_def split: if_splits)
  have loop: "wait_loop e interval ?start stop_time ?s5
      = Some (Inr (), ?s5\<lparr>now_calls := now_calls ?s5 + Suc n,
           trace := trace ?s5 @ loop_events e interval ?start (now_calls ?s5) n\<rparr>)"
    using assms(3,4) by (intro wait_loop_leaves [OF assms(1)]) simp_all
  have "countdown e interval stop_time s
      = (case wait_loop e interval ?start stop_time ?s5 of
           None \<Rightarrow> None
         | Some (Inl err, s6) \<Rightarrow> Some (Inl err, s6)
         | Some (Inr u, s6) \<Rightarrow> Some (pause_if_playing e s6))"
    using assms(2) by (simp add: countdown_def now_def emit_def Let_def)
  also have "\<dots> = Some (pause_if_playing e
             (s\<lparr>now_calls := now_calls s + n + 3,
                trace := trace s @ timer_events e interval stop_time (now_calls s) n\<rparr>))"
    unfolding loop by (simp add: timer_events_def e numeral_3_eq_3)
  finally show ?thesis .
qed

text \<open>Lines 75 to 85 leave the playback counter, the files and the pause commands alone;
  once playback is found active, the rest of \<open>sleep_timer\<close> is the timer itself.\<close>

lemma to_duration_state:
  assumes "to_duration e v s = (r, s1)"
  shows "playing_calls s1 = playing_calls s \<and> files s1 = files s
         \<and> count_list (trace s1) PausePlayback = count_list (trace s) PausePlayback"
  using assms
  by (auto simp add: to_duration_def to_timedelta_def now_def emit_def Let_def
      split: if_splits sum.splits pyval.splits prod.splits)

lemma sleep_timer_entered:
  assumes "join_scope scope = Inr joined"
    and "authorize e client_id client_secret redirect_uri joined username = None"
    and "reports_playing (currently_playing e (playing_calls s))"
    and "to_duration e music_stop_time
           (entered (SpotifyOAuth client_id client_secret redirect_uri joined username) s)
         = (Inr stop_time, s3)"
  shows "sleep_timer e username client_id client_secret scope redirect_uri music_stop_time
           interval s = countdown e interval stop_time s3"
proof -
  let ?s1 = "emit (SpotifyOAuth client_id client_secret redirect_uri joined username) s"
  have c: "playing_calls ?s1 = playing_calls s" by (simp add: emit_def)
  from assms(3) obtain p where "truthy p"
    "is_playing e ?s1 = (Inr p, emit CurrentlyPlaying (?s1\<lparr>playing_calls := Suc (playing_calls ?s1)\<rparr>))"
    using is_playing_when_playing [of e ?s1] c by auto
  with assms(1,2,4) show ?thesis
    by (simp add: sleep_timer_def Let_def entered_def c)
qed

text \<open>\<open>timedelta(seconds=x)\<close> rounds a float to the microsecond: the result is less than
  one microsecond from \<open>x\<close> seconds, and equal to it when \<open>x\<close> is a whole number of
  microseconds.\<close>

lemma round_half_even_div_bound:
  assumes "0 < p"
  shows "\<bar>2 * (round_half_even_div a p * p) - 2 * a\<bar> \<le> p"
proof -
  define q where "q = a div p"
  define r where "r = a mod p"
  have a: "a = q * p + r" by (simp add: q_def r_def)
  have r: "0 \<le> r" "r < p" using assms by (simp_all add: r_def)
  have "round_half_even_div a p = q \<and> 2 * r \<le> p
        \<or> round_half_even_div a p = q + 1 \<and> p \<le> 2 * r"
    by (auto simp add: round_half_even_div_def Let_def q_def r_def)
  then show ?thesis
  proof
    assume h: "round_half_even_div a p = q \<and> 2 * r \<le> p"
    then have "2 * (round_half_even_div a p * p) - 2 * a = - (2 * r)"
      by (simp add: a algebra_simps)
    with h r show ?thesis by simp
  next
    assume h: "round_half_even_div a p = q + 1 \<and> p \<le> 2 * r"
    then have "2 * (round_half_even_div a p * p) - 2 * a = 2 * p - 2 * r"
      by (simp add: a algebra_simps)
    with h r show ?thesis by simp
  qed
qed

lemma bitlen_le: "n < 2 ^ j \<Longrightarrow> bitlen n \<le> j"
proof (induction j arbitrary: n)
  case 0
  then show ?case by simp
next
  case (Suc j)
  then have "n div 2 < 2 ^ j" by simp
  from Suc.IH [OF this] show ?case by simp
qed

lemma py_round_to_double_bound:
  assumes "e < 0" and "\<bar>M\<bar> < 2 ^ nat (- e) * 1000000"
  shows "\<bar>2 * (py_round (to_double M e) * 2 ^ nat (- e)) - 2 * M\<bar> < 2 * 2 ^ nat (- e)"
proof -
  define P :: int where "P = 2 ^ nat (- e)"
  have P: "0 < P" by (simp add: P_def)
  define b where "b = bitlen (nat \<bar>M\<bar>)"
  have "\<bar>2 * (py_round (to_double M e) * P) - 2 * M\<bar> < 2 * P"
  proof (cases "b \<le> 53")
    case True
    then have "py_round (to_double M e) = round_half_even_div M P"
      using assms(1) by (simp add: to_double_def py_round_def b_def P_def Let_def)
    with round_half_even_div_bound [OF P, of M] P show ?thesis
      by simp
  next
    case False
    define kk where "kk = b - 53"
    have "P * 1000000 < P * 2 ^ 20"
      using P by simp
    with assms(2) have "\<bar>M\<bar> < P * 2 ^ 20"
      unfolding P_def by linarith
    then have "\<bar>M\<bar> < 2 ^ (nat (- e) + 20)"
      by (simp add: P_def power_add)
    then have "nat \<bar>M\<bar> < 2 ^ (nat (- e) + 20)"
      by (simp add: nat_less_iff)
    from bitlen_le [OF this] have b: "b \<le> nat (- e) + 20" by (simp add: b_def)
    with False have kk: "0 < kk" "kk + 33 \<le> nat (- e)" by (simp_all add: kk_def)
    define K :: int where "K = 2 ^ kk"
    define Q :: int where "Q = 2 ^ (nat (- e) - kk)"
    have K: "0 < K" and Q: "0 < Q" by (simp_all add: K_def Q_def)
    have PKQ: "P = K * Q"
      using kk by (simp add: P_def K_def Q_def flip: power_add)
    have "(2::int) ^ 1 \<le> 2 ^ (nat (- e) - kk)"
      using kk by (intro power_increasing) simp_all
    then have Q2: "2 \<le> Q" by (simp add: Q_def)
    define M' where "M' = round_half_even_div M K"
    have td: "to_double M e = (M', e + int kk)"
      using False by (simp add: to_double_def b_def kk_def M'_def K_def Let_def)
    have neg: "\<not> 0 \<le> e + int kk" and ex: "nat (- e - int kk) = nat (- e) - kk"
      using kk assms(1) by simp_all
    have X: "py_round (to_double M e) = round_half_even_div M' Q"
      unfolding td using neg by (simp add: py_round_def ex Q_def)
    define X where "X = round_half_even_div M' Q"
    have b1: "\<bar>2 * (M' * K) - 2 * M\<bar> \<le> K"
      unfolding M'_def by (rule round_half_even_div_bound [OF K])
    have b2: "\<bar>2 * (X * Q) - 2 * M'\<bar> \<le> Q"
      unfolding X_def by (rule round_half_even_div_bound [OF Q])
    have le: "\<bar>2 * (X * Q) - 2 * M'\<bar> * K \<le> Q * K"
      using b2 K by (simp add: mult_right_mono)
    have eq: "2 * (X * Q * K) - 2 * (M' * K) = (2 * (X * Q) - 2 * M') * K"
      by (simp add: algebra_simps)
    have "\<bar>2 * (X * Q * K) - 2 * (M' * K)\<bar> = \<bar>2 * (X * Q) - 2 * M'\<bar> * K"
      unfolding eq using K by (simp add: abs_mult)
    with le have b3: "\<bar>2 * (X * Q * K) - 2 * (M' * K)\<bar> \<le> Q * K"
      by simp
    have "K < K * Q" using K Q2 by simp
    with b1 b3 have "\<bar>2 * (X * (K * Q)) - 2 * M\<bar> < 2 * (K * Q)"
      by (simp add: algebra_simps)
    then show ?thesis
      unfolding X X_def [symmetric] PKQ [symmetric] .
  qed
  then show ?thesis unfolding P_def .
qed

lemma float_seconds_to_us_near:
  assumes "e < 0"
  shows "\<bar>float_seconds_to_us m e * 2 ^ nat (- e) - m * 1000000\<bar> < 2 ^ nat (- e)"
proof -
  define P :: int where "P = 2 ^ nat (- e)"
  have P: "0 < P" by (simp add: P_def)
  define whole where "whole = sgn m * (\<bar>m\<bar> div P)"
  define frac where "frac = m - whole * P"
  have "m = sgn m * \<bar>m\<bar>" by (simp add: mult_sgn_abs)
  also have "\<dots> = sgn m * (\<bar>m\<bar> div P * P + \<bar>m\<bar> mod P)" by simp
  also have "\<dots> = whole * P + sgn m * (\<bar>m\<bar> mod P)"
    by (simp only: whole_def distrib_left mult.assoc)
  finally have "m = whole * P + sgn m * (\<bar>m\<bar> mod P)" .
  then have frac: "frac = sgn m * (\<bar>m\<bar> mod P)" by (simp add: frac_def)
  have "\<bar>frac\<bar> \<le> \<bar>m\<bar> mod P"
    unfolding frac using P by (simp add: abs_mult abs_sgn_eq)
  moreover have "\<bar>m\<bar> mod P < P" using P by simp
  ultimately have "\<bar>frac\<bar> < P" by simp
  then have "\<bar>frac\<bar> * 1000000 < P * 1000000" by simp
  then have M: "\<bar>frac * 1000000\<bar> < 2 ^ nat (- e) * 1000000"
    by (simp add: abs_mult P_def)
  define X where "X = py_round (to_double (frac * 1000000) e)"
  from py_round_to_double_bound [OF assms M]
  have "\<bar>2 * (X * P) - 2 * (frac * 1000000)\<bar> < 2 * P"
    by (simp add: X_def P_def)
  then have near: "\<bar>X * P - frac * 1000000\<bar> < P" by simp
  have us: "float_seconds_to_us m e = whole * 1000000 + X"
    using assms
    by (simp add: float_seconds_to_us_def py_trunc_def Let_def X_def frac_def whole_def P_def)
  have "float_seconds_to_us m e * P - m * 1000000 = X * P - frac * 1000000"
    by (simp add: us frac_def algebra_simps)
  with near show ?thesis by (simp add: P_def)
qed

lemma float_seconds_near: "near_seconds (PyFloat (Dbl m e)) (float_seconds_to_us m e)"
proof (cases "0 \<le> e")
  case True
  then show ?thesis by (simp add: float_seconds_to_us_def py_trunc_def)
next
  case False
  then have "e < 0" by simp
  from float_seconds_to_us_near [OF this, of m] False show ?thesis by simp
qed

lemma timedelta_seconds_near:
  assumes "timedelta_seconds v = Inr d"
  shows "near_seconds v d"
proof (cases v)
  case (PyBool b)
  with assms show ?thesis by (simp add: timedelta_of_us_def split: if_splits)
next
  case (PyInt n)
  with assms show ?thesis by (simp add: timedelta_of_us_def split: if_splits)
next
  case (PyFloat f)
  show ?thesis
  proof (cases f)
    case (Dbl m e)
    with assms PyFloat have d: "d = float_seconds_to_us m e"
      by (simp add: timedelta_of_us_def split: if_splits)
    show ?thesis
    proof (cases "0 \<le> e")
      case True
      with d show ?thesis by (simp add: PyFloat Dbl float_seconds_to_us_def py_trunc_def)
    next
      case False
      then have "e < 0" by simp
      from float_seconds_to_us_near [OF this, of m] False show ?thesis
        by (simp add: PyFloat Dbl d)
    qed
  qed (use assms PyFloat in simp_all)
qed (use assms in simp_all)

lemma near_exact:
  assumes "near_seconds v d" and "exact_seconds v d'"
  shows "d = d'"
proof (cases v)
  case (PyFloat f)
  show ?thesis
  proof (cases f)
    case (Dbl m e)
    show ?thesis
    proof (cases "0 \<le> e")
      case True
      with assms PyFloat Dbl show ?thesis by simp
    next
      case False
      define P :: int where "P = 2 ^ nat (- e)"
      have P: "0 < P" by (simp add: P_def)
      from assms PyFloat Dbl False have "\<bar>d * P - d' * P\<bar> < P"
        by (simp add: P_def)
      then have "\<bar>d - d'\<bar> * P < 1 * P"
        using P by (simp add: abs_mult flip: left_diff_distrib)
      then have "\<bar>d - d'\<bar> < 1"
        using P by (simp only: mult_less_cancel_right_pos)
      then show ?thesis by simp
    qed
  qed (use assms PyFloat in simp_all)
qed (use assms in \<open>simp_all split: if_splits\<close>)

lemma timedelta_of_us_range:
  assumes "- 86399999913600000000 \<le> d" and "d < 86400000000000000000"
  shows "timedelta_of_us d = Inr d"
proof -
  have "(- 86399999913600000000) div 86400000000 \<le> d div 86400000000"
    using assms(1) by (intro zdiv_mono1) simp_all
  moreover have "d div 86400000000 \<le> 86399999999999999999 div 86400000000"
    using assms(2) by (intro zdiv_mono1) simp_all
  ultimately have "\<bar>d div 86400000000\<bar> \<le> 999999999" by simp
  then show ?thesis by (simp add: timedelta_of_us_def)
qed

lemma exact_seconds_timedelta:
  assumes "exact_seconds v d"
    and "- 86399999913600000000 \<le> d" and "d < 86400000000000000000"
  shows "timedelta_seconds v = Inr d"
proof (cases v)
  case (PyFloat f)
  show ?thesis
  proof (cases f)
    case (Dbl m e)
    from near_exact [OF float_seconds_near [of m e]] assms(1)
    have "float_seconds_to_us m e = d" by (simp add: PyFloat Dbl)
    with timedelta_of_us_range [OF assms(2,3)] show ?thesis by (simp add: PyFloat Dbl)
  qed (use assms PyFloat in simp_all)
qed (use assms timedelta_of_us_range [OF assms(2,3)] in \<open>simp_all split: if_splits\<close>)

lemma timedelta_seconds_not_past: "timedelta_seconds v \<noteq> Inl PastDuration"
proof (cases v)
  case (PyFloat f)
  then show ?thesis by (cases f) (simp_all add: timedelta_of_us_def)
qed (simp_all add: timedelta_of_us_def)

lemma to_duration_number:
  assumes "isinstance_int_float v"
  shows "to_duration e v s =
           (case timedelta_seconds v of
              Inl err \<Rightarrow> (Inl err, s)
            | Inr d \<Rightarrow> (if d < 0 then Inl PastDuration else Inr d, s))"
  using assms by (simp add: to_duration_def to_timedelta_def split: sum.splits)

subsection \<open>The playback state check\<close>

text \<open>
  Claim C8. For every session, \<open>is_playing\<close> returns \<open>False\<close> when the query for the
  currently playing item yields \<open>None\<close>; when it yields a record, \<open>is_playing\<close> returns
  exactly the value that the record holds under \<open>"is_playing"\<close>, the play state the API
  reports.
\<close>

theorem is_playing_result:
  "(currently_playing e (playing_calls s) = Inr PyNone
      \<longrightarrow> fst (is_playing e s) = Inr (PyBool False))
   \<and> (\<forall>kvs v. currently_playing e (playing_calls s) = Inr (PyDict kvs)
          \<and> map_of kvs ''is_playing'' = Some v
      \<longrightarrow> fst (is_playing e s) = Inr v)"
  by (simp add: is_playing_def Let_def)

theorem is_playing_result_witness:
  "currently_playing demo_env_idle (playing_calls demo_state) = Inr PyNone
   \<and> fst (is_playing demo_env_idle demo_state) = Inr (PyBool False)
   \<and> currently_playing demo_env (playing_calls demo_state)
       = Inr (PyDict [(''is_playing'', PyBool True)])
   \<and> map_of [(''is_playing'', PyBool True)] ''is_playing'' = Some (PyBool True)
   \<and> fst (is_playing demo_env demo_state) = Inr (PyBool True)"
  using is_playing_result [of demo_env_idle demo_state]
        is_playing_result [of demo_env demo_state]
  by (simp add: demo_env_idle_def demo_env_def demo_state_def)

text \<open>
  Claim C10. The lookup of \<open>"is_playing"\<close> in a record is not guarded: it succeeds for
  every record that holds the key, and for a record without the key \<open>is_playing\<close> raises
  \<open>KeyError\<close> instead of returning \<open>False\<close>.
\<close>

theorem is_playing_unguarded_lookup:
  "currently_playing e (playing_calls s) = Inr (PyDict kvs) \<Longrightarrow>
     (''is_playing'' \<in> fst ` set kvs \<longrightarrow> (\<exists>v. fst (is_playing e s) = Inr v))
     \<and> (''is_playing'' \<notin> fst ` set kvs
          \<longrightarrow> fst (is_playing e s) = Inl (KeyError ''is_playing'')
              \<and> fst (is_playing e s) \<noteq> Inr (PyBool False))"
  by (cases "map_of kvs ''is_playing''")
     (auto simp add: is_playing_def Let_def simp flip: map_of_eq_None_iff)

theorem is_playing_unguarded_lookup_witness:
  "currently_playing demo_env_no_key (playing_calls demo_state) = Inr (PyDict [(''item'', PyNone)])
   \<and> ''is_playing'' \<notin> fst ` set [(''item'', PyNone)]
   \<and> fst (is_playing demo_env_no_key demo_state) = Inl (KeyError ''is_playing'')
   \<and> currently_playing demo_env (playing_calls demo_state)
       = Inr (PyDict [(''is_playing'', PyBool True)])
   \<and> ''is_playing'' \<in> fst ` set [(''is_playing'', PyBool True)]
   \<and> (\<exists>v. fst (is_playing demo_env demo_state) = Inr v)"
  using is_playing_unguarded_lookup [of demo_env_no_key demo_state "[(''item'', PyNone)]"]
        is_playing_unguarded_lookup [of demo_env demo_state "[(''is_playing'', PyBool True)]"]
  by (simp add: demo_env_no_key_def demo_env_def demo_state_def)

subsection \<open>The stop time\<close>

text \<open>
  Claim C2, as stated: every stop time that is not a number of seconds, a timestamp or a
  span, a boolean in particular, fails with \<open>UnconvertibleDuration\<close>. It does not hold
  for a boolean: \<open>True\<close> is an instance of \<open>int\<close> and gives a span of one second.
\<close>

theorem to_duration_bool_counterexample:
  "fst (to_duration demo_env (PyBool True) demo_state) = Inr 1000000
   \<and> fst (to_duration demo_env (PyBool True) demo_state) \<noteq> Inl UnconvertibleDuration"
  by (simp add: to_duration_def to_timedelta_def timedelta_of_us_def)

text \<open>
  Claim C2, amended. Every stop time that is not an instance of \<open>int\<close> or \<open>float\<close>, of
  \<open>datetime\<close> or of \<open>timedelta\<close> (a mapping, a string, \<open>None\<close>) fails with
  \<open>UnconvertibleDuration\<close>, and the state is untouched; a boolean is taken as a number
  of seconds, \<open>True\<close> as one second and \<open>False\<close> as none.
\<close>

theorem to_duration_unsupported:
  "(\<not> isinstance_int_float v \<and> \<not> isinstance_datetime v \<and> \<not> isinstance_timedelta v
      \<longrightarrow> to_duration e v s = (Inl UnconvertibleDuration, s))
   \<and> to_duration e (PyBool b) s = (Inr (if b then 1000000 else 0), s)"
  by (simp add: to_duration_def to_timedelta_def timedelta_of_us_def)

theorem to_duration_unsupported_witness:
  "\<not> isinstance_int_float (PyDict []) \<and> \<not> isinstance_datetime (PyDict [])
   \<and> \<not> isinstance_timedelta (PyDict [])
   \<and> to_duration demo_env (PyDict []) demo_state = (Inl UnconvertibleDuration, demo_state)
   \<and> to_duration demo_env (PyStr ''soon'') demo_state = (Inl UnconvertibleDuration, demo_state)
   \<and> to_duration demo_env PyNone demo_state = (Inl UnconvertibleDuration, demo_state)"
  using to_duration_unsupported [of "PyDict []" demo_env demo_state]
        to_duration_unsupported [of "PyStr ''soon''" demo_env demo_state]
        to_duration_unsupported [of PyNone demo_env demo_state]
  by simp

text \<open>
  Claim C7, as stated: every number of seconds \<open>s \<ge> 0\<close> gives a span of exactly \<open>s\<close>
  seconds. It does not hold for a float below the resolution of \<open>timedelta\<close>: for
  \<open>s = 2 ^ - 30\<close> (about a nanosecond) the span is zero.
\<close>

theorem to_duration_seconds_counterexample:
  "fst (to_duration demo_env (PyFloat (Dbl 1 (- 30))) demo_state) = Inr 0
   \<and> \<not> exact_seconds (PyFloat (Dbl 1 (- 30))) 0"
  by (simp add: to_duration_def to_timedelta_def float_seconds_to_us_def py_trunc_def
      to_double_def py_round_def round_half_even_div_def timedelta_of_us_def Let_def)

text \<open>
  Claim C7, amended. For a number of seconds \<open>s\<close> (an \<open>int\<close>, a \<open>bool\<close> or a
  \<open>float\<close>) the span is \<open>s\<close> seconds rounded to whole microseconds: exactly \<open>s\<close>
  seconds when \<open>s\<close> is a whole number of microseconds between -999999999 days and
  1000000000 days (every \<open>int\<close> in that range, a float such as \<open>120.0\<close>), and less than
  a microsecond from \<open>s\<close> seconds whenever \<open>timedelta\<close> accepts \<open>s\<close>. That span is
  the result when it is not negative, zero included, and the result is \<open>PastDuration\<close>
  exactly when the span is negative.
\<close>

theorem to_duration_seconds:
  assumes "isinstance_int_float v"
  shows "(\<forall>d. exact_seconds v d \<and> - 86399999913600000000 \<le> d \<and> d < 86400000000000000000
            \<longrightarrow> to_duration e v s = (if d < 0 then Inl PastDuration else Inr d, s))
       \<and> (\<forall>d. timedelta_seconds v = Inr d
            \<longrightarrow> near_seconds v d
                \<and> to_duration e v s = (if d < 0 then Inl PastDuration else Inr d, s))
       \<and> ((fst (to_duration e v s) = Inl PastDuration)
            = (\<exists>d. timedelta_seconds v = Inr d \<and> d < 0))"
proof (intro conjI allI impI)
  fix d
  assume "exact_seconds v d \<and> - 86399999913600000000 \<le> d \<and> d < 86400000000000000000"
  then have "timedelta_seconds v = Inr d" by (simp add: exact_seconds_timedelta)
  then show "to_duration e v s = (if d < 0 then Inl PastDuration else Inr d, s)"
    by (simp add: to_duration_number [OF assms])
next
  fix d
  assume d: "timedelta_seconds v = Inr d"
  then show "near_seconds v d" by (rule timedelta_seconds_near)
  from d show "to_duration e v s = (if d < 0 then Inl PastDuration else Inr d, s)"
    by (simp add: to_duration_number [OF assms])
next
  show "(fst (to_duration e v s) = Inl PastDuration)
        = (\<exists>d. timedelta_seconds v = Inr d \<and> d < 0)"
    using timedelta_seconds_not_past [of v]
    by (cases "timedelta_seconds v") (simp_all add: to_duration_number [OF assms])
qed

theorem to_duration_seconds_witness:
  "isinstance_int_float (PyFloat (Dbl 120 0))
   \<and> exact_seconds (PyFloat (Dbl 120 0)) 120000000
   \<and> to_duration demo_env (PyFloat (Dbl 120 0)) demo_state = (Inr 120000000, demo_state)
   \<and> exact_seconds (PyInt 0) 0
   \<and> to_duration demo_env (PyInt 0) demo_state = (Inr 0, demo_state)
   \<and> exact_seconds (PyFloat (Dbl (- 5) 0)) (- 5000000)
   \<and> to_duration demo_env (PyFloat (Dbl (- 5) 0)) demo_state = (Inl PastDuration, demo_state)
   \<and> timedelta_seconds (PyFloat (Dbl 3 (- 1))) = Inr 1500000
   \<and> near_seconds (PyFloat (Dbl 3 (- 1))) 1500000"
proof -
  have t: "timedelta_seconds (PyFloat (Dbl 3 (- 1))) = Inr 1500000"
    by (simp add: float_seconds_to_us_def py_trunc_def to_double_def py_round_def
        round_half_even_div_def timedelta_of_us_def Let_def)
  show ?thesis
    using to_duration_seconds [of "PyFloat (Dbl 120 0)" demo_env demo_state]
          to_duration_seconds [of "PyInt 0" demo_env demo_state]
          to_duration_seconds [of "PyFloat (Dbl (- 5) 0)" demo_env demo_state]
          to_duration_seconds [of "PyFloat (Dbl 3 (- 1))" demo_env demo_state] t
    by simp
qed

subsection \<open>The entry point\<close>

text \<open>
  Claim C9. Without a positional argument the script fails with the message
  \<open>please input stop time\<close>; with an argument that \<open>float\<close> rejects it fails with a
  message that ends with the argument. In both cases the state is the initial one: no file
  has been looked at and no call to the API client made.
\<close>

theorem main_invalid_stop_time:
  "(length argv \<le> 1
      \<longrightarrow> main py_float e argv s = Some (Inl (IndexError ''please input stop time''), s))
   \<and> (1 < length argv \<and> py_float (argv ! 1) = None
      \<longrightarrow> main py_float e argv s
           = Some (Inl (ValueError (''cannot convert input. input='' @ argv ! 1)), s))"
  by (simp add: main_def)

theorem main_invalid_stop_time_witness:
  "length [''SpotifySleepTimer.py''] \<le> 1
   \<and> main (\<lambda>x. None) demo_env [''SpotifySleepTimer.py''] demo_state
       = Some (Inl (IndexError ''please input stop time''), demo_state)
   \<and> 1 < length [''SpotifySleepTimer.py'', ''soon'']
   \<and> main (\<lambda>x. None) demo_env [''SpotifySleepTimer.py'', ''soon''] demo_state
       = Some (Inl (ValueError ''cannot convert input. input=soon''), demo_state)"
  using main_invalid_stop_time [of "[''SpotifySleepTimer.py'']" "\<lambda>x. None" demo_env demo_state]
        main_invalid_stop_time [of "[''SpotifySleepTimer.py'', ''soon'']" "\<lambda>x. None" demo_env demo_state]
  by simp

subsection \<open>The configuration\<close>

text \<open>
  Claim C6. When \<open>./config.json\<close> does not exist, \<open>get_config\<close> writes the default
  record (empty user name, client id and client secret, the two default scopes, the
  redirect URI \<open>http://localhost:8080\<close>) and then fails with \<open>ConfigMissing\<close>; the
  next call finds the file and returns what it holds, without error, as does every call
  that finds the file holding a record.
\<close>

theorem get_config_bootstrap:
  assumes "files s ''./config.json'' = None"
  shows "\<exists>s1. get_config s = (Inl ConfigMissing, s1)
           \<and> trace s1 = trace s @ [IsFile ''./config.json'',
                                    WriteFile ''./config.json'' default_config]
           \<and> files s1 = (files s)(''./config.json'' \<mapsto> JsonFile default_config)
           \<and> get_config s1 = (Inr default_config,
                 emit (ReadFile ''./config.json'') (emit (IsFile ''./config.json'') s1))
           \<and> getitem default_config ''username'' = Inr (PyStr '''')
           \<and> getitem default_config ''client_id'' = Inr (PyStr '''')
           \<and> getitem default_config ''client_secret'' = Inr (PyStr '''')
           \<and> getitem default_config ''scope''
               = Inr (PyList [PyStr ''user-modify-playback-state'',
                              PyStr ''user-read-currently-playing''])
           \<and> getitem default_config ''redirect_uri'' = Inr (PyStr ''http://localhost:8080'')
           \<and> (\<forall>s2 config. files s2 ''./config.json'' = Some (JsonFile config)
                  \<longrightarrow> fst (get_config s2) = Inr config)"
  using assms by (simp add: get_config_def emit_def Let_def default_config_def)

theorem get_config_bootstrap_witness:
  "files demo_state ''./config.json'' = None
   \<and> fst (get_config demo_state) = Inl ConfigMissing
   \<and> fst (get_config (snd (get_config demo_state))) = Inr default_config"
  using get_config_bootstrap [of demo_state]
  by (auto simp add: demo_state_def)

subsection \<open>The timer\<close>

text \<open>
  Claim C5. If \<open>is_playing\<close> returns a false value when the timer is entered,
  \<open>sleep_timer\<close> prints \<open>does not play songs.\<close> and returns at once: its events are
  the construction of the OAuth manager, the query and the notice, so the loop is never
  entered (the clock is not read, nothing suspends) and no pause command is issued.
\<close>

theorem sleep_timer_not_playing:
  assumes "join_scope scope = Inr joined"
    and "authorize e client_id client_secret redirect_uri joined username = None"
    and "fst (is_playing e (emit (SpotifyOAuth client_id client_secret redirect_uri joined username) s))
           = Inr playing"
    and "\<not> truthy playing"
  shows "sleep_timer e username client_id client_secret scope redirect_uri music_stop_time
           elapced_time_check_interval s
         = Some (Inr (),
             s\<lparr>playing_calls := Suc (playing_calls s),
               trace := trace s @ [SpotifyOAuth client_id client_secret redirect_uri joined username,
                                   CurrentlyPlaying, Print ''does not play songs.'']\<rparr>)"
proof -
  let ?s1 = "emit (SpotifyOAuth client_id client_secret redirect_uri joined username) s"
  have "is_playing e ?s1
          = (Inr playing, emit CurrentlyPlaying (?s1\<lparr>playing_calls := Suc (playing_calls ?s1)\<rparr>))"
    using assms(3) by (simp add: is_playing_def Let_def split: sum.splits if_splits)
  with assms(1,2,4) show ?thesis
    by (simp add: sleep_timer_def emit_def Let_def)
qed

theorem sleep_timer_not_playing_witness:
  "join_scope demo_scope = Inr ''user-modify-playback-state user-read-currently-playing''
   \<and> sleep_timer demo_env_idle ''me'' ''id'' ''secret'' demo_scope ''http://localhost:8080''
        (PyFloat (Dbl 120 0)) (PyFloat (Dbl 1 0)) demo_state
      = Some (Inr (),
          demo_state\<lparr>playing_calls := 1,
            trace := [SpotifyOAuth ''id'' ''secret'' ''http://localhost:8080''
                        ''user-modify-playback-state user-read-currently-playing'' ''me'',
                      CurrentlyPlaying, Print ''does not play songs.'']\<rparr>)"
  using sleep_timer_not_playing [of demo_scope
          "''user-modify-playback-state user-read-currently-playing''"
          demo_env_idle "''id''" "''secret''" "''http://localhost:8080''" "''me''" demo_state
          "PyBool False" "PyFloat (Dbl 120 0)" "PyFloat (Dbl 1 0)"]
  by (simp add: demo_scope_def demo_env_idle_def demo_env_def demo_state_def is_playing_def
      emit_def Let_def)

text \<open>
  Claim C1, as stated: for a negative number of seconds such as \<open>-5\<close> the run fails with
  \<open>PastDuration\<close> before any call to the API client. It does not hold: the stop time is
  looked at only after \<open>SpotifyOAuth(...)\<close> and the first query of the playback state,
  and when nothing plays the run returns normally, without \<open>PastDuration\<close>.
\<close>

theorem sleep_timer_negative_counterexample:
  "sleep_timer demo_env ''me'' ''id'' ''secret'' demo_scope ''http://localhost:8080''
      (PyFloat (Dbl (- 5) 0)) (PyFloat (Dbl 1 0)) demo_state
    = Some (Inl PastDuration,
        demo_state\<lparr>playing_calls := 1,
          trace := [SpotifyOAuth ''id'' ''secret'' ''http://localhost:8080''
                      ''user-modify-playback-state user-read-currently-playing'' ''me'',
                    CurrentlyPlaying]\<rparr>)
   \<and> filter is_api_call
        [SpotifyOAuth ''id'' ''secret'' ''http://localhost:8080''
           ''user-modify-playback-state user-read-currently-playing'' ''me'',
         CurrentlyPlaying] \<noteq> []
   \<and> sleep_timer demo_env_idle ''me'' ''id'' ''secret'' demo_scope ''http://localhost:8080''
      (PyFloat (Dbl (- 5) 0)) (PyFloat (Dbl 1 0)) demo_state
    = Some (Inr (),
        demo_state\<lparr>playing_calls := 1,
          trace := [SpotifyOAuth ''id'' ''secret'' ''http://localhost:8080''
                      ''user-modify-playback-state user-read-currently-playing'' ''me'',
                    CurrentlyPlaying, Print ''does not play songs.'']\<rparr>)"
  by (simp add: sleep_timer_def demo_scope_def demo_env_idle_def demo_env_def demo_state_def
      is_playing_def emit_def Let_def to_duration_def to_timedelta_def float_seconds_to_us_def
      py_trunc_def timedelta_of_us_def)

text \<open>
  Claim C1, amended. For a number of seconds whose span is negative (such as \<open>-5\<close>),
  \<open>sleep_timer\<close> first calls \<open>SpotifyOAuth(...)\<close> and queries the playback state. If
  playback is active it then fails with \<open>PastDuration\<close>, before the clock is read, the
  loop entered or a pause command issued; if nothing plays it prints
  \<open>does not play songs.\<close> and returns without an error.
\<close>

theorem sleep_timer_negative:
  assumes "join_scope scope = Inr joined"
    and "authorize e client_id client_secret redirect_uri joined username = None"
    and "isinstance_int_float music_stop_time"
    and "timedelta_seconds music_stop_time = Inr d"
    and "d < 0"
  shows "(reports_playing (currently_playing e (playing_calls s)) \<longrightarrow>
            sleep_timer e username client_id client_secret scope redirect_uri music_stop_time
              elapced_time_check_interval s
            = Some (Inl PastDuration,
                entered (SpotifyOAuth client_id client_secret redirect_uri joined username) s))
       \<and> (reports_stopped (currently_playing e (playing_calls s)) \<longrightarrow>
            sleep_timer e username client_id client_secret scope redirect_uri music_stop_time
              elapced_time_check_interval s
            = Some (Inr (), emit (Print ''does not play songs.'')
                (entered (SpotifyOAuth client_id client_secret redirect_uri joined username) s)))"
proof (intro conjI impI)
  let ?s1 = "emit (SpotifyOAuth client_id client_secret redirect_uri joined username) s"
  have c: "playing_calls ?s1 = playing_calls s" by (simp add: emit_def)
  {
    assume "reports_playing (currently_playing e (playing_calls s))"
    then obtain p where "truthy p"
      "is_playing e ?s1 = (Inr p, emit CurrentlyPlaying (?s1\<lparr>playing_calls := Suc (playing_calls ?s1)\<rparr>))"
      using is_playing_when_playing [of e ?s1] c by auto
    with assms show "sleep_timer e username client_id client_secret scope redirect_uri
        music_stop_time elapced_time_check_interval s
      = Some (Inl PastDuration,
          entered (SpotifyOAuth client_id client_secret redirect_uri joined username) s)"
      by (simp add: sleep_timer_def Let_def to_duration_def to_timedelta_def entered_def c)
  }
  {
    assume "reports_stopped (currently_playing e (playing_calls s))"
    then obtain p where "\<not> truthy p"
      "is_playing e ?s1 = (Inr p, emit CurrentlyPlaying (?s1\<lparr>playing_calls := Suc (playing_calls ?s1)\<rparr>))"
      using is_playing_when_stopped [of e ?s1] c by auto
    with assms show "sleep_timer e username client_id client_secret scope redirect_uri
        music_stop_time elapced_time_check_interval s
      = Some (Inr (), emit (Print ''does not play songs.'')
          (entered (SpotifyOAuth client_id client_secret redirect_uri joined username) s))"
      by (simp add: sleep_timer_def Let_def entered_def c)
  }
qed

theorem sleep_timer_negative_witness:
  "join_scope demo_scope = Inr ''user-modify-playback-state user-read-currently-playing''
   \<and> isinstance_int_float (PyFloat (Dbl (- 5) 0))
   \<and> timedelta_seconds (PyFloat (Dbl (- 5) 0)) = Inr (- 5000000)
   \<and> reports_playing (currently_playing demo_env (playing_calls demo_state))
   \<and> reports_stopped (currently_playing demo_env_idle (playing_calls demo_state))
   \<and> sleep_timer demo_env ''me'' ''id'' ''secret'' demo_scope ''http://localhost:8080''
        (PyFloat (Dbl (- 5) 0)) (PyFloat (Dbl 1 0)) demo_state
      = Some (Inl PastDuration,
          entered (SpotifyOAuth ''id'' ''secret'' ''http://localhost:8080''
            ''user-modify-playback-state user-read-currently-playing'' ''me'') demo_state)
   \<and> sleep_timer demo_env_idle ''me'' ''id'' ''secret'' demo_scope ''http://localhost:8080''
        (PyFloat (Dbl (- 5) 0)) (PyFloat (Dbl 1 0)) demo_state
      = Some (Inr (), emit (Print ''does not play songs.'')
          (entered (SpotifyOAuth ''id'' ''secret'' ''http://localhost:8080''
            ''user-modify-playback-state user-read-currently-playing'' ''me'') demo_state))"
proof -
  have j: "join_scope demo_scope = Inr ''user-modify-playback-state user-read-currently-playing''"
    by (simp add: demo_scope_def)
  have t: "timedelta_seconds (PyFloat (Dbl (- 5) 0)) = Inr (- 5000000)"
    by (simp add: float_seconds_to_us_def py_trunc_def timedelta_of_us_def)
  have a: "authorize demo_env ''id'' ''secret'' ''http://localhost:8080''
             ''user-modify-playback-state user-read-currently-playing'' ''me'' = None"
    by (simp add: demo_env_def)
  have a': "authorize demo_env_idle ''id'' ''secret'' ''http://localhost:8080''
             ''user-modify-playback-state user-read-currently-playing'' ''me'' = None"
    by (simp add: demo_env_idle_def demo_env_def)
  have p: "reports_playing (currently_playing demo_env (playing_calls demo_state))"
    by (simp add: demo_env_def)
  have q: "reports_stopped (currently_playing demo_env_idle (playing_calls demo_state))"
    by (simp add: demo_env_idle_def demo_env_def)
  show ?thesis
    using sleep_timer_negative [where s = demo_state and username = "''me''"
            and elapced_time_check_interval = "PyFloat (Dbl 1 0)", OF j a _ t]
          sleep_timer_negative [where s = demo_state and username = "''me''"
            and elapced_time_check_interval = "PyFloat (Dbl 1 0)", OF j a' _ t]
          j t p q
    by simp
qed

text \<open>
  Claim C3. If playback is active when the timer starts and stays active, and some reading
  of the clock is later than the start by more than the stop time, then \<open>sleep_timer\<close>
  returns and issues exactly one pause command. The command comes after the loop, which
  ends at the first reading of the clock whose elapsed time exceeds the stop time (so the
  elapsed time has reached it): before that reading every reading was followed by a
  suspension, and that reading is followed by the query of the playback state and the
  pause command.
\<close>

theorem sleep_timer_pauses_once:
  assumes "join_scope scope = Inr joined"
    and "authorize e client_id client_secret redirect_uri joined username = None"
    and "\<forall>q. reports_playing (currently_playing e q)"
    and "to_duration e music_stop_time
           (entered (SpotifyOAuth client_id client_secret redirect_uri joined username) s)
         = (Inr stop_time, s3)"
    and "datetime_add (now_at e (Suc (now_calls s3))) stop_time = Inr end_time"
    and "sleep_result e interval = None"
    and "stop_time < now_at e (now_calls s3 + 2 + k) - now_at e (now_calls s3)"
  shows "\<exists>n r s'. n \<le> k
           \<and> (\<forall>j<n. now_at e (now_calls s3 + 2 + j) - now_at e (now_calls s3) \<le> stop_time)
           \<and> stop_time < now_at e (now_calls s3 + 2 + n) - now_at e (now_calls s3)
           \<and> sleep_timer e username client_id client_secret scope redirect_uri music_stop_time
                interval s = Some (r, s')
           \<and> r = (case pause_playback e of None \<Rightarrow> Inr () | Some err \<Rightarrow> Inl err)
           \<and> trace s' = trace s3 @ timer_events e interval stop_time (now_calls s3) n
                @ [CurrentlyPlaying, PausePlayback]
                @ (case pause_playback e of None \<Rightarrow> [Print ''stop playing''] | Some err \<Rightarrow> [])
           \<and> (\<exists>pre post. trace s' = pre
                @ [Now (now_at e (now_calls s3 + 2 + n)),
                   ProgressUpdate (timedelta_div_us
                     (now_at e (now_calls s3 + 2 + n) - now_at e (now_calls s3))),
                   CurrentlyPlaying, PausePlayback] @ post)
           \<and> count_list (trace s') PausePlayback = Suc (count_list (trace s) PausePlayback)"
proof -
  let ?c = "now_calls s3"
  let ?oauth = "SpotifyOAuth client_id client_secret redirect_uri joined username"
  from first_reading [of stop_time "\<lambda>j. now_at e (?c + 2 + j) - now_at e ?c" k] assms(7)
  obtain n where n: "n \<le> k"
      "\<forall>j<n. now_at e (?c + 2 + j) - now_at e ?c \<le> stop_time"
      "stop_time < now_at e (?c + 2 + n) - now_at e ?c"
    by blast
  let ?s6 = "s3\<lparr>now_calls := ?c + n + 3,
                trace := trace s3 @ timer_events e interval stop_time ?c n\<rparr>"
  have run: "sleep_timer e username client_id client_secret scope redirect_uri music_stop_time
               interval s = Some (pause_if_playing e ?s6)"
    using sleep_timer_entered [OF assms(1,2) _ assms(4)] assms(3)
          countdown_runs [OF assms(6,5) n(2,3)]
    by simp
  from assms(3) obtain p where p: "truthy p"
    "is_playing e ?s6 = (Inr p, emit CurrentlyPlaying (?s6\<lparr>playing_calls := Suc (playing_calls ?s6)\<rparr>))"
    using is_playing_when_playing [of e ?s6] by blast
  have cnt3: "count_list (trace s3) PausePlayback = count_list (trace s) PausePlayback"
    using to_duration_state [OF assms(4)] by (simp add: entered_def emit_def)
  obtain r s' where rs: "pause_if_playing e ?s6 = (r, s')"
    by (cases "pause_if_playing e ?s6")
  have r: "r = (case pause_playback e of None \<Rightarrow> Inr () | Some err \<Rightarrow> Inl err)"
    using rs p by (auto simp add: pause_if_playing_def Let_def split: option.splits)
  have t: "trace s' = trace s3 @ timer_events e interval stop_time ?c n
             @ [CurrentlyPlaying, PausePlayback]
             @ (case pause_playback e of None \<Rightarrow> [Print ''stop playing''] | Some err \<Rightarrow> [])"
    using rs p by (auto simp add: pause_if_playing_def emit_def Let_def split: option.splits)
  have cnt: "count_list (trace s') PausePlayback = Suc (count_list (trace s) PausePlayback)"
    unfolding t by (simp add: count_timer_events cnt3 split: option.splits)
  have run': "sleep_timer e username client_id client_secret scope redirect_uri music_stop_time
               interval s = Some (r, s')"
    using run rs by simp
  from loop_events_last [of e interval "now_at e ?c" "?c + 2" n]
  obtain pre where "loop_events e interval (now_at e ?c) (?c + 2) n = pre
      @ [Now (now_at e (?c + 2 + n)),
         ProgressUpdate (timedelta_div_us (now_at e (?c + 2 + n) - now_at e ?c))]"
    by blast
  then have "trace s' = (trace s3 @ take 5 (timer_events e interval stop_time ?c n) @ pre)
      @ [Now (now_at e (?c + 2 + n)),
         ProgressUpdate (timedelta_div_us (now_at e (?c + 2 + n) - now_at e ?c)),
         CurrentlyPlaying, PausePlayback]
      @ (case pause_playback e of None \<Rightarrow> [Print ''stop playing''] | Some err \<Rightarrow> [])"
    unfolding t by (simp add: timer_events_def)
  then have last: "\<exists>pre post. trace s' = pre
      @ [Now (now_at e (?c + 2 + n)),
         ProgressUpdate (timedelta_div_us (now_at e (?c + 2 + n) - now_at e ?c)),
         CurrentlyPlaying, PausePlayback] @ post"
    by blast
  show ?thesis
    by (rule exI [of _ n], rule exI [of _ r], rule exI [of _ s'])
       (intro conjI n run' r t last cnt)
qed

theorem sleep_timer_pauses_once_witness:
  "(\<forall>q. reports_playing (currently_playing demo_env q))
   \<and> to_duration demo_env (PyFloat (Dbl 3 0))
         (entered (SpotifyOAuth ''id'' ''secret'' ''http://localhost:8080''
            ''user-modify-playback-state user-read-currently-playing'' ''me'') demo_state)
       = (Inr 3000000,
          entered (SpotifyOAuth ''id'' ''secret'' ''http://localhost:8080''
            ''user-modify-playback-state user-read-currently-playing'' ''me'') demo_state)
   \<and> (3000000 < now_at demo_env 4 - now_at demo_env 0)
   \<and> (\<exists>s'. sleep_timer demo_env ''me'' ''id'' ''secret'' demo_scope ''http://localhost:8080''
              (PyFloat (Dbl 3 0)) (PyFloat (Dbl 1 0)) demo_state = Some (Inr (), s')
            \<and> count_list (trace s') PausePlayback = 1)"
proof -
  let ?oauth = "SpotifyOAuth ''id'' ''secret'' ''http://localhost:8080''
            ''user-modify-playback-state user-read-currently-playing'' ''me''"
  have j: "join_scope demo_scope = Inr ''user-modify-playback-state user-read-currently-playing''"
    by (simp add: demo_scope_def)
  have a: "authorize demo_env ''id'' ''secret'' ''http://localhost:8080''
             ''user-modify-playback-state user-read-currently-playing'' ''me'' = None"
    by (simp add: demo_env_def)
  have p: "\<forall>q. reports_playing (currently_playing demo_env q)"
    by (simp add: demo_env_def)
  have d: "to_duration demo_env (PyFloat (Dbl 3 0)) (entered ?oauth demo_state)
           = (Inr 3000000, entered ?oauth demo_state)"
    by (simp add: to_duration_def to_timedelta_def float_seconds_to_us_def py_trunc_def
        timedelta_of_us_def)
  have c: "now_calls (entered ?oauth demo_state) = 0"
    by (simp add: entered_def emit_def demo_state_def)
  have o: "datetime_add (now_at demo_env (Suc (now_calls (entered ?oauth demo_state)))) 3000000
           = Inr 63000000004000000"
    by (simp add: c datetime_add_def demo_env_def)
  have z: "sleep_result demo_env (PyFloat (Dbl 1 0)) = None"
    by (simp add: demo_env_def)
  have k: "3000000 < now_at demo_env (now_calls (entered ?oauth demo_state) + 2 + 2)
                     - now_at demo_env (now_calls (entered ?oauth demo_state))"
    by (simp add: c demo_env_def)
  from sleep_timer_pauses_once [OF j a p d o z k]
  obtain r s' where
    "sleep_timer demo_env ''me'' ''id'' ''secret'' demo_scope ''http://localhost:8080''
       (PyFloat (Dbl 3 0)) (PyFloat (Dbl 1 0)) demo_state = Some (r, s')"
    "r = (case pause_playback demo_env of None \<Rightarrow> Inr () | Some err \<Rightarrow> Inl err)"
    "count_list (trace s') PausePlayback = Suc (count_list (trace demo_state) PausePlayback)"
    by blast
  then have "\<exists>s'. sleep_timer demo_env ''me'' ''id'' ''secret'' demo_scope ''http://localhost:8080''
              (PyFloat (Dbl 3 0)) (PyFloat (Dbl 1 0)) demo_state = Some (Inr (), s')
            \<and> count_list (trace s') PausePlayback = 1"
    by (simp add: demo_env_def demo_state_def)
  moreover have "3000000 < now_at demo_env 4 - now_at demo_env 0"
    by (simp add: demo_env_def)
  ultimately show ?thesis using p d by blast
qed

text \<open>
  Claim C4. If playback is active when the timer starts and has stopped by the time the
  loop ends, the loop still runs until the first reading of the clock whose elapsed time
  exceeds the stop time (playback is not looked at in between), and \<open>sleep_timer\<close>
  returns after the second query of the playback state without a pause command.
\<close>

theorem sleep_timer_no_redundant_pause:
  assumes "join_scope scope = Inr joined"
    and "authorize e client_id client_secret redirect_uri joined username = None"
    and "reports_playing (currently_playing e (playing_calls s))"
    and "reports_stopped (currently_playing e (Suc (playing_calls s)))"
    and "to_duration e music_stop_time
           (entered (SpotifyOAuth client_id client_secret redirect_uri joined username) s)
         = (Inr stop_time, s3)"
    and "datetime_add (now_at e (Suc (now_calls s3))) stop_time = Inr end_time"
    and "sleep_result e interval = None"
    and "stop_time < now_at e (now_calls s3 + 2 + k) - now_at e (now_calls s3)"
  shows "\<exists>n s'. n \<le> k
           \<and> (\<forall>j<n. now_at e (now_calls s3 + 2 + j) - now_at e (now_calls s3) \<le> stop_time)
           \<and> stop_time < now_at e (now_calls s3 + 2 + n) - now_at e (now_calls s3)
           \<and> sleep_timer e username client_id client_secret scope redirect_uri music_stop_time
                interval s = Some (Inr (), s')
           \<and> trace s' = trace s3 @ timer_events e interval stop_time (now_calls s3) n
                @ [CurrentlyPlaying]
           \<and> (\<exists>pre. trace s' = pre
                @ [Now (now_at e (now_calls s3 + 2 + n)),
                   ProgressUpdate (timedelta_div_us
                     (now_at e (now_calls s3 + 2 + n) - now_at e (now_calls s3))),
                   CurrentlyPlaying])
           \<and> count_list (trace s') PausePlayback = count_list (trace s) PausePlayback"
proof -
  let ?c = "now_calls s3"
  from first_reading [of stop_time "\<lambda>j. now_at e (?c + 2 + j) - now_at e ?c" k] assms(8)
  obtain n where n: "n \<le> k"
      "\<forall>j<n. now_at e (?c + 2 + j) - now_at e ?c \<le> stop_time"
      "stop_time < now_at e (?c + 2 + n) - now_at e ?c"
    by blast
  let ?s6 = "s3\<lparr>now_calls := ?c + n + 3,
                trace := trace s3 @ timer_events e interval stop_time ?c n\<rparr>"
  have run: "sleep_timer e username client_id client_secret scope redirect_uri music_stop_time
               interval s = Some (pause_if_playing e ?s6)"
    using sleep_timer_entered [OF assms(1,2,3,5)] countdown_runs [OF assms(7,6) n(2,3)]
    by simp
  have calls: "playing_calls ?s6 = Suc (playing_calls s)"
    using to_duration_state [OF assms(5)] by (simp add: entered_def emit_def)
  with assms(4) obtain p where p: "\<not> truthy p"
    "is_playing e ?s6 = (Inr p, emit CurrentlyPlaying (?s6\<lparr>playing_calls := Suc (playing_calls ?s6)\<rparr>))"
    using is_playing_when_stopped [of e ?s6] by auto
  have cnt3: "count_list (trace s3) PausePlayback = count_list (trace s) PausePlayback"
    using to_duration_state [OF assms(5)] by (simp add: entered_def emit_def)
  let ?s' = "emit CurrentlyPlaying (?s6\<lparr>playing_calls := Suc (playing_calls ?s6)\<rparr>)"
  have rs: "pause_if_playing e ?s6 = (Inr (), ?s')"
    using p by (simp add: pause_if_playing_def)
  have t: "trace ?s' = trace s3 @ timer_events e interval stop_time ?c n @ [CurrentlyPlaying]"
    by (simp add: emit_def)
  have cnt: "count_list (trace ?s') PausePlayback = count_list (trace s) PausePlayback"
    unfolding t by (simp add: count_timer_events cnt3)
  have run': "sleep_timer e username client_id client_secret scope redirect_uri music_stop_time
               interval s = Some (Inr (), ?s')"
    using run rs by simp
  from loop_events_last [of e interval "now_at e ?c" "?c + 2" n]
  obtain pre where "loop_events e interval (now_at e ?c) (?c + 2) n = pre
      @ [Now (now_at e (?c + 2 + n)),
         ProgressUpdate (timedelta_div_us (now_at e (?c + 2 + n) - now_at e ?c))]"
    by blast
  then have "trace ?s' = (trace s3 @ take 5 (timer_events e interval stop_time ?c n) @ pre)
      @ [Now (now_at e (?c + 2 + n)),
         ProgressUpdate (timedelta_div_us (now_at e (?c + 2 + n) - now_at e ?c)),
         CurrentlyPlaying]"
    unfolding t by (simp add: timer_events_def)
  then have last: "\<exists>pre. trace ?s' = pre
      @ [Now (now_at e (?c + 2 + n)),
         ProgressUpdate (timedelta_div_us (now_at e (?c + 2 + n) - now_at e ?c)),
         CurrentlyPlaying]"
    by blast
  show ?thesis
    by (rule exI [of _ n], rule exI [of _ ?s']) (intro conjI n run' t last cnt)
qed

theorem sleep_timer_no_redundant_pause_witness:
  "reports_playing (currently_playing demo_env_stops (playing_calls demo_state))
   \<and> reports_stopped (currently_playing demo_env_stops (Suc (playing_calls demo_state)))
   \<and> (3000000 < now_at demo_env_stops 4 - now_at demo_env_stops 0)
   \<and> (\<exists>s'. sleep_timer demo_env_stops ''me'' ''id'' ''secret'' demo_scope ''http://localhost:8080''
              (PyFloat (Dbl 3 0)) (PyFloat (Dbl 1 0)) demo_state = Some (Inr (), s')
            \<and> count_list (trace s') PausePlayback = 0)"
proof -
  let ?oauth = "SpotifyOAuth ''id'' ''secret'' ''http://localhost:8080''
            ''user-modify-playback-state user-read-currently-playing'' ''me''"
  have j: "join_scope demo_scope = Inr ''user-modify-playback-state user-read-currently-playing''"
    by (simp add: demo_scope_def)
  have a: "authorize demo_env_stops ''id'' ''secret'' ''http://localhost:8080''
             ''user-modify-playback-state user-read-currently-playing'' ''me'' = None"
    by (simp add: demo_env_stops_def demo_env_def)
  have p: "reports_playing (currently_playing demo_env_stops (playing_calls demo_state))"
    by (simp add: demo_env_stops_def demo_env_def demo_state_def)
  have q: "reports_stopped (currently_playing demo_env_stops (Suc (playing_calls demo_state)))"
    by (simp add: demo_env_stops_def demo_env_def demo_state_def)
  have d: "to_duration demo_env_stops (PyFloat (Dbl 3 0)) (entered ?oauth demo_state)
           = (Inr 3000000, entered ?oauth demo_state)"
    by (simp add: to_duration_def to_timedelta_def float_seconds_to_us_def py_trunc_def
        timedelta_of_us_def)
  have c: "now_calls (entered ?oauth demo_state) = 0"
    by (simp add: entered_def emit_def demo_state_def)
  have o: "datetime_add (now_at demo_env_stops (Suc (now_calls (entered ?oauth demo_state)))) 3000000
           = Inr 63000000004000000"
    by (simp add: c datetime_add_def demo_env_stops_def demo_env_def)
  have z: "sleep_result demo_env_stops (PyFloat (Dbl 1 0)) = None"
    by (simp add: demo_env_stops_def demo_env_def)
  have k: "3000000 < now_at demo_env_stops (now_calls (entered ?oauth demo_state) + 2 + 2)
                     - now_at demo_env_stops (now_calls (entered ?oauth demo_state))"
    by (simp add: c demo_env_stops_def demo_env_def)
  from sleep_timer_no_redundant_pause [OF j a p q d o z k]
  obtain s' where
    "sleep_timer demo_env_stops ''me'' ''id'' ''secret'' demo_scope ''http://localhost:8080''
       (PyFloat (Dbl 3 0)) (PyFloat (Dbl 1 0)) demo_state = Some (Inr (), s')"
    "count_list (trace s') PausePlayback = count_list (trace demo_state) PausePlayback"
    by blast
  then have "\<exists>s'. sleep_timer demo_env_stops ''me'' ''id'' ''secret'' demo_scope
              ''http://localhost:8080'' (PyFloat (Dbl 3 0)) (PyFloat (Dbl 1 0)) demo_state
              = Some (Inr (), s')
            \<and> count_list (trace s') PausePlayback = 0"
    by (simp add: demo_state_def)
  moreover have "3000000 < now_at demo_env_stops 4 - now_at demo_env_stops 0"
    by (simp add: demo_env_stops_def demo_env_def)
  ultimately show ?thesis using p q by blast
qed

end
